theory Spec2Isabelle
  imports Complex_Main
begin

section \<open>The trading bot of \<^verbatim>\<open>index.js\<close> as a state-passing model\<close>

text \<open>
  The program is one JavaScript module. Its collaborators (the exchange client, the
  SQLite handle, the logger, the chat bot) are ambient globals; here they are an
  environment \<open>env\<close> (what the outside answers) and a \<open>state\<close> (what the program
  has done so far), passed explicitly. A rejected promise or a \<^verbatim>\<open>throw\<close> is the
  \<open>Inl\<close> branch of a sum. JavaScript numbers are modelled by the reals, without
  rounding.

  The statements handed to \<^verbatim>\<open>db.run\<close> and \<^verbatim>\<open>db.get\<close> are taken to run in program
  order, each INSERT and its callback before the statement that follows it. The code
  neither awaits nor serializes them, so this is one of its schedules: a lookup that
  follows an insert may in the code run before it. The concrete runs below that reach
  a lookup start from a ledger that already holds the row looked up, so that their
  outcome does not depend on that order.
\<close>

subsection \<open>Data\<close>

datatype error =
    ExchangeUnavailable string
  | ExchangeRejected string
  | SqliteError string
  | TradeNotFound
  | TypeError string

fun message :: "error \<Rightarrow> string" where
  "message (ExchangeUnavailable m) = m"
| "message (ExchangeRejected m) = m"
| "message (SqliteError m) = m"
| "message TradeNotFound = ''Trade not found in database.''"
| "message (TypeError m) = m"

text \<open>A row of the table \<^verbatim>\<open>trades\<close> (lines 26-33).\<close>

record trade =
  t_id :: int
  t_symbol :: "string option"
  t_side :: string
  t_qty :: real
  t_price :: real
  t_status :: string

text \<open>The argument of \<^verbatim>\<open>bybitClient.orderCreate\<close> and the part of its answer the program reads.\<close>

record order_req =
  o_symbol :: "string option"
  o_side :: string
  o_orderType :: string
  o_qty :: real

record confirmation =
  c_price :: real

text \<open>An element of \<^verbatim>\<open>positions.result\<close>, with the five fields the loop destructures.\<close>

record position =
  p_id :: int
  p_symbol :: string
  p_side :: string
  p_size :: real
  p_entry_price :: real

text \<open>
  The webhook body after \<^verbatim>\<open>express.json()\<close>: an object whose \<^verbatim>\<open>topic\<close> and
  \<^verbatim>\<open>data\<close> may be any JSON value or missing.

  The handler compares the topic with a string literal by \<^verbatim>\<open>===\<close> and, when they
  differ, writes it into a template literal (line 172). So a topic is a string, or a
  value that is not a string and that the template literal turns into some text
  (\<^verbatim>\<open>undefined\<close> for a missing topic, \<^verbatim>\<open>null\<close>, a number, \<^verbatim>\<open>[object Object]\<close>), or
  a value whose conversion to a string throws a TypeError (an object whose
  \<^verbatim>\<open>toString\<close> and \<^verbatim>\<open>valueOf\<close> give no primitive, such as \<^verbatim>\<open>{"toString": 1}\<close>).

  The handler reads two properties of \<^verbatim>\<open>data\<close>: that throws a TypeError when the
  data is missing or null, and gives the fields otherwise (a primitive has neither
  field). The symbol is a string or missing, as in section 6 of the spec; for the
  recommendation \<open>None\<close> also stands for a value that is not a string.
\<close>

datatype topic_value = TopicString string | TopicOther string | TopicThrows

fun topic_text :: "topic_value \<Rightarrow> error + string" where
  "topic_text (TopicString t) = Inr t"
| "topic_text (TopicOther t) = Inr t"
| "topic_text TopicThrows = Inl (TypeError ''Cannot convert object to primitive value'')"

record signal =
  symbol :: "string option"
  recommendation :: "string option"

datatype data_value = DataUndefined | DataNull | DataSignal signal

record body =
  topic :: topic_value
  data :: data_value

datatype xcall = Create order_req | ListPositions

datatype event =
    TradeInsertedLog
  | InsertErrorLog string
  | StatusUpdatedLog
  | UpdateErrorLog string
  | OrderPlacedInfo string real "string option"
  | ProfitLossLog int real
  | PinoInfo string
  | PinoWarn string
  | PinoError string
  | Telegram string

text \<open>
  The outside world. The exchange answers as a function of the calls made so far;
  the database reports an error or not, as a function of the rows and the statement's
  arguments. \<open>ORDER_QUANTITY\<close> is the number \<^verbatim>\<open>parseInt(process.env.ORDER_QUANTITY, 10)\<close>.
\<close>

record env =
  orderCreate :: "xcall list \<Rightarrow> order_req \<Rightarrow> error + confirmation"
  positionList :: "xcall list \<Rightarrow> error + position list"
  insert_error :: "trade list \<Rightarrow> string option \<Rightarrow> string \<Rightarrow> real \<Rightarrow> real \<Rightarrow> string option"
  update_error :: "trade list \<Rightarrow> int \<Rightarrow> string option"
  get_error :: "trade list \<Rightarrow> int \<Rightarrow> string option"
  ORDER_QUANTITY :: real

text \<open>
  What the program has done: the rows of the table and its AUTOINCREMENT counter,
  every call made to the exchange, the orders the exchange confirmed, and the lines
  written to the console, the logger and the chat.
\<close>

record state =
  trades :: "trade list"
  seq :: int
  calls :: "xcall list"
  placed :: "order_req list"
  out :: "event list"

definition init_state :: state where
  "init_state = \<lparr>trades = [], seq = 0, calls = [], placed = [], out = []\<rparr>"

subsection \<open>The ledger (lines 37-79)\<close>

definition insertTrade :: "env \<Rightarrow> string option \<Rightarrow> string \<Rightarrow> real \<Rightarrow> real \<Rightarrow> state \<Rightarrow> state" where
  "insertTrade E smb sd q p s =
     (case insert_error E (trades s) smb sd q p of
        Some m \<Rightarrow> s\<lparr>out := out s @ [InsertErrorLog m]\<rparr>
      | None \<Rightarrow>
          s\<lparr>trades := trades s @
               [\<lparr>t_id = seq s + 1, t_symbol = smb, t_side = sd, t_qty = q, t_price = p,
                 t_status = ''Open''\<rparr>],
            seq := seq s + 1,
            out := out s @ [TradeInsertedLog]\<rparr>)"

definition updateTradeStatus :: "env \<Rightarrow> int \<Rightarrow> state \<Rightarrow> state" where
  "updateTradeStatus E i s =
     (case update_error E (trades s) i of
        Some m \<Rightarrow> s\<lparr>out := out s @ [UpdateErrorLog m]\<rparr>
      | None \<Rightarrow>
          s\<lparr>trades := map (\<lambda>r. if t_id r = i then r\<lparr>t_status := ''Closed''\<rparr> else r) (trades s),
            out := out s @ [StatusUpdatedLog]\<rparr>)"

definition calculateProfitLoss :: "env \<Rightarrow> int \<Rightarrow> real \<Rightarrow> state \<Rightarrow> error + real" where
  "calculateProfitLoss E i sellPrice s =
     (case get_error E (trades s) i of
        Some m \<Rightarrow> Inl (SqliteError m)
      | None \<Rightarrow>
          (case find (\<lambda>r. t_id r = i) (trades s) of
             None \<Rightarrow> Inl TradeNotFound
           | Some row \<Rightarrow>
               Inr (if t_side row = ''Buy'' then (sellPrice - t_price row) * t_qty row
                    else (t_price row - sellPrice) * t_qty row)))"

subsection \<open>Order placement (lines 82-101)\<close>

definition placeOrder ::
  "env \<Rightarrow> string option \<Rightarrow> string \<Rightarrow> real \<Rightarrow> state \<Rightarrow> (error + confirmation) \<times> state" where
  "placeOrder E smb sd q s =
     (let req = \<lparr>o_symbol = smb, o_side = sd, o_orderType = ''Market'', o_qty = q\<rparr>;
          s0 = s\<lparr>calls := calls s @ [Create req]\<rparr>
      in case orderCreate E (calls s) req of
           Inr ord \<Rightarrow>
             (Inr ord,
              insertTrade E smb sd q (c_price ord)
                (s0\<lparr>placed := placed s0 @ [req], out := out s0 @ [OrderPlacedInfo sd q smb]\<rparr>))
         | Inl e \<Rightarrow>
             (Inl e,
              s0\<lparr>out := out s0 @ [PinoError (''Error placing order: '' @ message e),
                                  Telegram (''Error placing order: '' @ message e)]\<rparr>))"

subsection \<open>Closing all positions (lines 104-134)\<close>

text \<open>The body of the \<^verbatim>\<open>for\<close> loop, for one position.\<close>

definition closePosition :: "env \<Rightarrow> position \<Rightarrow> state \<Rightarrow> (error + unit) \<times> state" where
  "closePosition E p s =
     (if p_side p = ''Buy'' then
        (case placeOrder E (Some (p_symbol p)) ''Sell'' (p_size p) s of
           (Inl e, s1) \<Rightarrow> (Inl e, s1)
         | (Inr ord, s1) \<Rightarrow> (Inr (), s1))
      else if p_side p = ''Sell'' then
        (case placeOrder E (Some (p_symbol p)) ''Buy'' (p_size p) s of
           (Inl e, s1) \<Rightarrow> (Inl e, s1)
         | (Inr ord, s1) \<Rightarrow>
             (case calculateProfitLoss E (p_id p) (p_entry_price p) s1 of
                Inl e \<Rightarrow> (Inl e, s1)
              | Inr profitLoss \<Rightarrow>
                  (Inr (), s1\<lparr>out := out s1 @ [ProfitLossLog (p_id p) profitLoss]\<rparr>)))
      else (Inr (), s))"

fun closeLoop :: "env \<Rightarrow> position list \<Rightarrow> state \<Rightarrow> (error + unit) \<times> state" where
  "closeLoop E [] s = (Inr (), s)"
| "closeLoop E (p # ps) s =
     (case closePosition E p s of
        (Inl e, s1) \<Rightarrow> (Inl e, s1)
      | (Inr u, s1) \<Rightarrow> closeLoop E ps s1)"

definition closeFailed :: "error \<Rightarrow> state \<Rightarrow> (error + unit) \<times> state" where
  "closeFailed e s =
     (Inl e,
      s\<lparr>out := out s @ [PinoError (''Error closing positions: '' @ message e),
                        Telegram (''Error closing positions: '' @ message e)]\<rparr>)"

definition closeAllPositions :: "env \<Rightarrow> state \<Rightarrow> (error + unit) \<times> state" where
  "closeAllPositions E s =
     (let s0 = s\<lparr>calls := calls s @ [ListPositions]\<rparr>
      in case positionList E (calls s) of
           Inl e \<Rightarrow> closeFailed e s0
         | Inr ps \<Rightarrow>
             (case closeLoop E ps s0 of
                (Inl e, s1) \<Rightarrow> closeFailed e s1
              | (Inr u, s1) \<Rightarrow>
                  (Inr (), s1\<lparr>out := out s1 @ [PinoInfo ''All open positions closed.'']\<rparr>)))"

subsection \<open>The webhook handler (lines 150-179)\<close>

definition webhookFailed :: "error \<Rightarrow> state \<Rightarrow> nat \<times> state" where
  "webhookFailed e s =
     (500, s\<lparr>out := out s @ [PinoError (''Error processing TradingView webhook: '' @ message e)]\<rparr>)"

definition handleTradingViewWebhook :: "env \<Rightarrow> body \<Rightarrow> state \<Rightarrow> nat \<times> state" where
  "handleTradingViewWebhook E b s =
     (if topic b = TopicString ''notification.create'' then
        (case data b of
           DataUndefined \<Rightarrow>
             webhookFailed (TypeError ''Cannot read properties of undefined (reading 'symbol')'') s
         | DataNull \<Rightarrow>
             webhookFailed (TypeError ''Cannot read properties of null (reading 'symbol')'') s
         | DataSignal sig \<Rightarrow>
             (let side = (if recommendation sig = Some ''BUY'' then ''Buy'' else ''Sell'')
              in if side = ''Buy'' then
                   (case placeOrder E (symbol sig) side (ORDER_QUANTITY E) s of
                      (Inl e, s1) \<Rightarrow> webhookFailed e s1
                    | (Inr ord, s1) \<Rightarrow> (200, s1))
                 else if side = ''Sell'' then
                   (case closeAllPositions E s of
                      (Inl e, s1) \<Rightarrow> webhookFailed e s1
                    | (Inr u, s1) \<Rightarrow> (200, s1))
                 else (200, s)))
      else
        (case topic_text (topic b) of
           Inl e \<Rightarrow> webhookFailed e s
         | Inr t \<Rightarrow> (400, s\<lparr>out := out s @ [PinoWarn (''Received unexpected topic: '' @ t)]\<rparr>)))"

text \<open>
  The states the running program can be in: the module starts with an empty table,
  and the only entry point that touches the state is the webhook route.
\<close>

inductive reachable :: "state \<Rightarrow> bool" where
  reachable_init: "reachable init_state"
| reachable_step: "reachable s \<Longrightarrow> handleTradingViewWebhook E b s = (c, s') \<Longrightarrow> reachable s'"

subsection \<open>Reading the effects of a run\<close>

text \<open>
  The profit/loss lines of the console (line 124), as pairs of the trade id and the
  value printed, in the order they were written.
\<close>

fun profit_losses :: "event list \<Rightarrow> (int \<times> real) list" where
  "profit_losses [] = []"
| "profit_losses (ProfitLossLog i v # es) = (i, v) # profit_losses es"
| "profit_losses (e # es) = profit_losses es"

subsection \<open>Concrete collaborators and inputs used to run the model\<close>

text \<open>An exchange that confirms every order at price 100 and reports no position; a database that never fails.\<close>

definition accept_env :: env where
  "accept_env =
     \<lparr>orderCreate = (\<lambda>h r. Inr \<lparr>c_price = 100\<rparr>),
      positionList = (\<lambda>h. Inr []),
      insert_error = (\<lambda>rows smb sd q p. None),
      update_error = (\<lambda>rows i. None),
      get_error = (\<lambda>rows i. None),
      ORDER_QUANTITY = 1\<rparr>"

text \<open>The same exchange, with a database whose INSERT fails.\<close>

definition insert_fail_env :: env where
  "insert_fail_env = accept_env\<lparr>insert_error := (\<lambda>rows smb sd q p. Some ''SQLITE_FULL: database or disk is full'')\<rparr>"

text \<open>An exchange whose first call times out and which confirms every later order.\<close>

definition flaky_env :: env where
  "flaky_env =
     accept_env\<lparr>orderCreate :=
       (\<lambda>h r. if h = [] then Inl (ExchangeUnavailable ''ETIMEDOUT'') else Inr \<lparr>c_price = 100\<rparr>)\<rparr>"

text \<open>The exchange of the two-position scenario: BTCUSD/Buy/1 and ETHUSD/Sell/2.\<close>

definition btc_position :: position where
  "btc_position = \<lparr>p_id = 1, p_symbol = ''BTCUSD'', p_side = ''Buy'', p_size = 1, p_entry_price = 100\<rparr>"

definition eth_position :: position where
  "eth_position = \<lparr>p_id = 2, p_symbol = ''ETHUSD'', p_side = ''Sell'', p_size = 2, p_entry_price = 50\<rparr>"

definition two_positions_env :: env where
  "two_positions_env = accept_env\<lparr>positionList := (\<lambda>h. Inr [btc_position, eth_position])\<rparr>"

text \<open>An exchange reporting one short position whose id is that of the row of \<open>one_trade\<close>.\<close>

definition short_position :: position where
  "short_position = \<lparr>p_id = 1, p_symbol = ''ETHUSD'', p_side = ''Sell'', p_size = 2, p_entry_price = 50\<rparr>"

definition short_position_env :: env where
  "short_position_env = accept_env\<lparr>positionList := (\<lambda>h. Inr [short_position])\<rparr>"

definition buy_body :: body where
  "buy_body = \<lparr>topic = TopicString ''notification.create'',
               data = DataSignal \<lparr>symbol = Some ''BTCUSD'', recommendation = Some ''BUY''\<rparr>\<rparr>"

definition sell_body :: body where
  "sell_body = \<lparr>topic = TopicString ''notification.create'',
                data = DataSignal \<lparr>symbol = Some ''BTCUSD'', recommendation = Some ''SELL''\<rparr>\<rparr>"

definition hold_body :: body where
  "hold_body = \<lparr>topic = TopicString ''notification.create'',
                data = DataSignal \<lparr>symbol = Some ''BTCUSD'', recommendation = Some ''HOLD''\<rparr>\<rparr>"



text \<open>A ledger holding one open row with id 1.\<close>

definition one_trade :: "string \<Rightarrow> real \<Rightarrow> real \<Rightarrow> state" where
  "one_trade sd q p =
     init_state\<lparr>trades := [\<lparr>t_id = 1, t_symbol = Some ''BTCUSD'', t_side = sd, t_qty = q,
                             t_price = p, t_status = ''Open''\<rparr>],
                seq := 1\<rparr>"

text \<open>A ledger that already holds the two trades of the two-position scenario, ids 1 and 2.\<close>

definition two_trades :: state where
  "two_trades =
     init_state\<lparr>trades := [\<lparr>t_id = 1, t_symbol = Some ''BTCUSD'', t_side = ''Buy'', t_qty = 1,
                             t_price = 100, t_status = ''Open''\<rparr>,
                            \<lparr>t_id = 2, t_symbol = Some ''ETHUSD'', t_side = ''Sell'', t_qty = 2,
                             t_price = 50, t_status = ''Open''\<rparr>],
                seq := 2\<rparr>"

section \<open>Profit and loss of a trade\<close>

text \<open>
  C4. For a trade row with entry price \<open>t_price\<close> and quantity \<open>t_qty\<close> and an exit
  price \<open>x\<close>, \<open>calculateProfitLoss\<close> resolves to \<open>(x - entry) * quantity\<close> when the
  row's side is Buy and to \<open>(entry - x) * quantity\<close> when it is Sell. The witness runs
  the three examples: Buy 100 to 110 with quantity 2 gives 20, Sell 100 to 90 gives 20,
  Sell 100 to 110 gives -20.
\<close>

theorem calculateProfitLoss_by_side:
  assumes "get_error E (trades s) i = None"
    and "find (\<lambda>r. t_id r = i) (trades s) = Some row"
  shows "(t_side row = ''Buy'' \<longrightarrow>
            calculateProfitLoss E i x s = Inr ((x - t_price row) * t_qty row)) \<and>
         (t_side row = ''Sell'' \<longrightarrow>
            calculateProfitLoss E i x s = Inr ((t_price row - x) * t_qty row))"
  using assms by (simp add: calculateProfitLoss_def)

theorem calculateProfitLoss_by_side_witness:
  "calculateProfitLoss accept_env 1 110 (one_trade ''Buy'' 2 100) = Inr 20 \<and>
   calculateProfitLoss accept_env 1 90 (one_trade ''Sell'' 2 100) = Inr 20 \<and>
   calculateProfitLoss accept_env 1 110 (one_trade ''Sell'' 2 100) = Inr (- 20)"
  using
    calculateProfitLoss_by_side [of accept_env "one_trade ''Buy'' 2 100" 1
      "\<lparr>t_id = 1, t_symbol = Some ''BTCUSD'', t_side = ''Buy'', t_qty = 2, t_price = 100, t_status = ''Open''\<rparr>" 110]
    calculateProfitLoss_by_side [of accept_env "one_trade ''Sell'' 2 100" 1
      "\<lparr>t_id = 1, t_symbol = Some ''BTCUSD'', t_side = ''Sell'', t_qty = 2, t_price = 100, t_status = ''Open''\<rparr>" 90]
    calculateProfitLoss_by_side [of accept_env "one_trade ''Sell'' 2 100" 1
      "\<lparr>t_id = 1, t_symbol = Some ''BTCUSD'', t_side = ''Sell'', t_qty = 2, t_price = 100, t_status = ''Open''\<rparr>" 110]
  by (simp add: accept_env_def one_trade_def init_state_def)

section \<open>Order placement\<close>

lemma placeOrder_confirmed:
  assumes "orderCreate E (calls s) \<lparr>o_symbol = smb, o_side = sd, o_orderType = ''Market'', o_qty = q\<rparr> = Inr ord"
  shows "placeOrder E smb sd q s =
           (Inr ord,
            insertTrade E smb sd q (c_price ord)
              (s\<lparr>calls := calls s @ [Create \<lparr>o_symbol = smb, o_side = sd, o_orderType = ''Market'', o_qty = q\<rparr>],
                 placed := placed s @ [\<lparr>o_symbol = smb, o_side = sd, o_orderType = ''Market'', o_qty = q\<rparr>],
                 out := out s @ [OrderPlacedInfo sd q smb]\<rparr>))"
  using assms by (simp add: placeOrder_def Let_def)

lemma placeOrder_failed:
  assumes "orderCreate E (calls s) \<lparr>o_symbol = smb, o_side = sd, o_orderType = ''Market'', o_qty = q\<rparr> = Inl e"
  shows "placeOrder E smb sd q s =
           (Inl e,
            s\<lparr>calls := calls s @ [Create \<lparr>o_symbol = smb, o_side = sd, o_orderType = ''Market'', o_qty = q\<rparr>],
              out := out s @ [PinoError (''Error placing order: '' @ message e),
                              Telegram (''Error placing order: '' @ message e)]\<rparr>)"
  using assms by (simp add: placeOrder_def Let_def)

text \<open>
  C2, as the claim states it, fails: with a confirmed order and a failing INSERT,
  \<open>placeOrder\<close> still returns the order; no row is written, nothing is sent to the
  chat, and the error is one console line.
\<close>

theorem insert_failure_swallowed_counterexample:
  "fst (placeOrder insert_fail_env (Some ''BTCUSD'') ''Buy'' 1 init_state) = Inr \<lparr>c_price = 100\<rparr> \<and>
   trades (snd (placeOrder insert_fail_env (Some ''BTCUSD'') ''Buy'' 1 init_state)) = [] \<and>
   out (snd (placeOrder insert_fail_env (Some ''BTCUSD'') ''Buy'' 1 init_state)) =
     [OrderPlacedInfo ''Buy'' 1 (Some ''BTCUSD''),
      InsertErrorLog ''SQLITE_FULL: database or disk is full'']"
  by (simp add: placeOrder_def insertTrade_def insert_fail_env_def accept_env_def init_state_def Let_def)

text \<open>
  C2, amended. When the exchange confirms the order and the ledger insert fails,
  \<open>placeOrder\<close> returns the confirmation as a success; the insert error is written to
  the console and nowhere else: no row is added, the notifier is not called, and
  nothing is thrown to the caller.
\<close>

theorem insert_failure_only_logged:
  assumes "orderCreate E (calls s) \<lparr>o_symbol = smb, o_side = sd, o_orderType = ''Market'', o_qty = q\<rparr> = Inr ord"
    and "insert_error E (trades s) smb sd q (c_price ord) = Some m"
  shows "placeOrder E smb sd q s =
           (Inr ord,
            s\<lparr>calls := calls s @ [Create \<lparr>o_symbol = smb, o_side = sd, o_orderType = ''Market'', o_qty = q\<rparr>],
              placed := placed s @ [\<lparr>o_symbol = smb, o_side = sd, o_orderType = ''Market'', o_qty = q\<rparr>],
              out := out s @ [OrderPlacedInfo sd q smb, InsertErrorLog m]\<rparr>)"
  using assms by (simp add: placeOrder_confirmed insertTrade_def)

theorem insert_failure_only_logged_witness:
  "placeOrder insert_fail_env (Some ''BTCUSD'') ''Buy'' 1 init_state =
     (Inr \<lparr>c_price = 100\<rparr>,
      init_state\<lparr>calls := [Create \<lparr>o_symbol = Some ''BTCUSD'', o_side = ''Buy'', o_orderType = ''Market'', o_qty = 1\<rparr>],
                 placed := [\<lparr>o_symbol = Some ''BTCUSD'', o_side = ''Buy'', o_orderType = ''Market'', o_qty = 1\<rparr>],
                 out := [OrderPlacedInfo ''Buy'' 1 (Some ''BTCUSD''),
                         InsertErrorLog ''SQLITE_FULL: database or disk is full'']\<rparr>)"
  using insert_failure_only_logged [of insert_fail_env init_state "Some ''BTCUSD''" "''Buy''" 1
      "\<lparr>c_price = 100\<rparr>" "''SQLITE_FULL: database or disk is full''"]
  by (simp add: insert_fail_env_def accept_env_def init_state_def)

text \<open>
  C10, as the claim states it, fails: the exchange times out on the first call and
  would confirm the second, yet the webhook answers 500 after a single call and no
  order is placed.
\<close>

theorem no_retry_counterexample:
  "fst (handleTradingViewWebhook flaky_env buy_body init_state) = 500 \<and>
   calls (snd (handleTradingViewWebhook flaky_env buy_body init_state)) =
     [Create \<lparr>o_symbol = Some ''BTCUSD'', o_side = ''Buy'', o_orderType = ''Market'', o_qty = 1\<rparr>] \<and>
   placed (snd (handleTradingViewWebhook flaky_env buy_body init_state)) = [] \<and>
   orderCreate flaky_env
     (calls (snd (handleTradingViewWebhook flaky_env buy_body init_state)))
     \<lparr>o_symbol = Some ''BTCUSD'', o_side = ''Buy'', o_orderType = ''Market'', o_qty = 1\<rparr> = Inr \<lparr>c_price = 100\<rparr>"
  by (simp add: handleTradingViewWebhook_def placeOrder_def webhookFailed_def flaky_env_def
      accept_env_def buy_body_def init_state_def Let_def)

text \<open>
  C10, amended. An order placement that the exchange fails, whether by a transport
  failure or by a rejection, is attempted exactly once and never retried:
  \<open>placeOrder\<close> logs the error, calls the notifier and rethrows, and writes nothing to
  the ledger; on the buy path the webhook then answers HTTP 500.
\<close>

theorem exchange_failure_single_attempt:
  assumes "orderCreate E (calls s) \<lparr>o_symbol = smb, o_side = sd, o_orderType = ''Market'', o_qty = q\<rparr> = Inl e"
  shows "placeOrder E smb sd q s =
           (Inl e,
            s\<lparr>calls := calls s @ [Create \<lparr>o_symbol = smb, o_side = sd, o_orderType = ''Market'', o_qty = q\<rparr>],
              out := out s @ [PinoError (''Error placing order: '' @ message e),
                              Telegram (''Error placing order: '' @ message e)]\<rparr>) \<and>
         (topic b = TopicString ''notification.create'' \<and> data b = DataSignal sig \<and>
          recommendation sig = Some ''BUY'' \<and> symbol sig = smb \<and> sd = ''Buy'' \<and> ORDER_QUANTITY E = q \<longrightarrow>
          handleTradingViewWebhook E b s =
            (500,
             s\<lparr>calls := calls s @ [Create \<lparr>o_symbol = smb, o_side = sd, o_orderType = ''Market'', o_qty = q\<rparr>],
               out := out s @ [PinoError (''Error placing order: '' @ message e),
                               Telegram (''Error placing order: '' @ message e),
                               PinoError (''Error processing TradingView webhook: '' @ message e)]\<rparr>))"
  using assms by (auto simp add: placeOrder_failed handleTradingViewWebhook_def webhookFailed_def)

theorem exchange_failure_single_attempt_witness:
  "placeOrder flaky_env (Some ''BTCUSD'') ''Buy'' 1 init_state =
     (Inl (ExchangeUnavailable ''ETIMEDOUT''),
      init_state\<lparr>calls := [Create \<lparr>o_symbol = Some ''BTCUSD'', o_side = ''Buy'', o_orderType = ''Market'', o_qty = 1\<rparr>],
                 out := [PinoError ''Error placing order: ETIMEDOUT'',
                         Telegram ''Error placing order: ETIMEDOUT'']\<rparr>) \<and>
   handleTradingViewWebhook flaky_env buy_body init_state =
     (500,
      init_state\<lparr>calls := [Create \<lparr>o_symbol = Some ''BTCUSD'', o_side = ''Buy'', o_orderType = ''Market'', o_qty = 1\<rparr>],
                 out := [PinoError ''Error placing order: ETIMEDOUT'',
                         Telegram ''Error placing order: ETIMEDOUT'',
                         PinoError ''Error processing TradingView webhook: ETIMEDOUT'']\<rparr>)"
  using exchange_failure_single_attempt [of flaky_env init_state "Some ''BTCUSD''" "''Buy''" 1
      "ExchangeUnavailable ''ETIMEDOUT''" buy_body "\<lparr>symbol = Some ''BTCUSD'', recommendation = Some ''BUY''\<rparr>"]
  by (simp add: flaky_env_def accept_env_def init_state_def buy_body_def)

section \<open>The webhook handler\<close>




lemma placed_insertTrade: "placed (insertTrade E smb sd q p s) = placed s"
  by (simp add: insertTrade_def split: option.splits)

lemma calls_insertTrade: "calls (insertTrade E smb sd q p s) = calls s"
  by (simp add: insertTrade_def split: option.splits)

text \<open>
  C1, as the claim states it, fails: the same buy signal delivered twice to an
  exchange that confirms every order is answered 200 twice and leaves two orders
  placed, not one.
\<close>

theorem duplicate_signal_counterexample:
  "fst (handleTradingViewWebhook accept_env buy_body init_state) = 200 \<and>
   fst (handleTradingViewWebhook accept_env buy_body
          (snd (handleTradingViewWebhook accept_env buy_body init_state))) = 200 \<and>
   placed (snd (handleTradingViewWebhook accept_env buy_body
                  (snd (handleTradingViewWebhook accept_env buy_body init_state)))) =
     [\<lparr>o_symbol = Some ''BTCUSD'', o_side = ''Buy'', o_orderType = ''Market'', o_qty = 1\<rparr>,
      \<lparr>o_symbol = Some ''BTCUSD'', o_side = ''Buy'', o_orderType = ''Market'', o_qty = 1\<rparr>]"
  by (simp add: handleTradingViewWebhook_def placeOrder_def insertTrade_def accept_env_def
      buy_body_def init_state_def Let_def)

text \<open>
  C1, amended. The handler keeps no idempotency key and compares no delivery with an
  earlier one: every delivery of a buy signal whose order the exchange confirms places
  one more order, so the same signal delivered twice and confirmed twice places
  exactly two orders, and both deliveries are answered 200.
\<close>

theorem buy_signal_places_order_each_delivery:
  assumes "topic b = TopicString ''notification.create''"
    and "data b = DataSignal sig"
    and "recommendation sig = Some ''BUY''"
    and "handleTradingViewWebhook E b s = (c1, s1)"
    and "handleTradingViewWebhook E b s1 = (c2, s2)"
    and "orderCreate E (calls s)
           \<lparr>o_symbol = symbol sig, o_side = ''Buy'', o_orderType = ''Market'', o_qty = ORDER_QUANTITY E\<rparr> = Inr ord1"
    and "orderCreate E (calls s1)
           \<lparr>o_symbol = symbol sig, o_side = ''Buy'', o_orderType = ''Market'', o_qty = ORDER_QUANTITY E\<rparr> = Inr ord2"
  shows "c1 = 200 \<and> c2 = 200 \<and>
         placed s1 = placed s @
           [\<lparr>o_symbol = symbol sig, o_side = ''Buy'', o_orderType = ''Market'', o_qty = ORDER_QUANTITY E\<rparr>] \<and>
         placed s2 = placed s @
           [\<lparr>o_symbol = symbol sig, o_side = ''Buy'', o_orderType = ''Market'', o_qty = ORDER_QUANTITY E\<rparr>,
            \<lparr>o_symbol = symbol sig, o_side = ''Buy'', o_orderType = ''Market'', o_qty = ORDER_QUANTITY E\<rparr>]"
proof -
  let ?req = "\<lparr>o_symbol = symbol sig, o_side = ''Buy'', o_orderType = ''Market'', o_qty = ORDER_QUANTITY E\<rparr>"
  have one: "c = 200 \<and> placed t' = placed t @ [?req]"
    if "handleTradingViewWebhook E b t = (c, t')" and "orderCreate E (calls t) ?req = Inr ord" for t t' c ord
    using that assms(1-3)
    by (auto simp add: handleTradingViewWebhook_def placeOrder_confirmed placed_insertTrade Let_def)
  from one [OF assms(4) assms(6)] one [OF assms(5) assms(7)] show ?thesis by simp
qed

theorem buy_signal_places_order_each_delivery_witness:
  "placed (snd (handleTradingViewWebhook accept_env buy_body
                  (snd (handleTradingViewWebhook accept_env buy_body init_state)))) =
     [\<lparr>o_symbol = Some ''BTCUSD'', o_side = ''Buy'', o_orderType = ''Market'', o_qty = 1\<rparr>,
      \<lparr>o_symbol = Some ''BTCUSD'', o_side = ''Buy'', o_orderType = ''Market'', o_qty = 1\<rparr>]"
proof -
  let ?s1 = "snd (handleTradingViewWebhook accept_env buy_body init_state)"
  let ?s2 = "snd (handleTradingViewWebhook accept_env buy_body ?s1)"
  have a: "topic buy_body = TopicString ''notification.create''"
    and b: "data buy_body = DataSignal \<lparr>symbol = Some ''BTCUSD'', recommendation = Some ''BUY''\<rparr>"
    and c: "recommendation \<lparr>symbol = Some ''BTCUSD'', recommendation = Some ''BUY''\<rparr> = Some ''BUY''"
    by (simp_all add: buy_body_def)
  have d: "handleTradingViewWebhook accept_env buy_body init_state =
             (fst (handleTradingViewWebhook accept_env buy_body init_state), ?s1)"
    and e: "handleTradingViewWebhook accept_env buy_body ?s1 =
             (fst (handleTradingViewWebhook accept_env buy_body ?s1), ?s2)"
    by simp_all
  have f: "orderCreate accept_env (calls h)
             \<lparr>o_symbol = symbol \<lparr>symbol = Some ''BTCUSD'', recommendation = Some ''BUY''\<rparr>,
              o_side = ''Buy'', o_orderType = ''Market'', o_qty = ORDER_QUANTITY accept_env\<rparr> =
           Inr \<lparr>c_price = 100\<rparr>" for h
    by (simp add: accept_env_def)
  from buy_signal_places_order_each_delivery [OF a b c d e f f]
  show ?thesis by (simp add: accept_env_def init_state_def)
qed

text \<open>
  C7, as the claim states it, fails: a signal with the recognized topic and the
  recommendation HOLD is answered 200, and a close order has been placed for each of
  the two open positions.
\<close>

theorem unparseable_signal_counterexample:
  "fst (handleTradingViewWebhook two_positions_env hold_body two_trades) = 200 \<and>
   placed (snd (handleTradingViewWebhook two_positions_env hold_body two_trades)) =
     [\<lparr>o_symbol = Some ''BTCUSD'', o_side = ''Sell'', o_orderType = ''Market'', o_qty = 1\<rparr>,
      \<lparr>o_symbol = Some ''ETHUSD'', o_side = ''Buy'', o_orderType = ''Market'', o_qty = 2\<rparr>]"
  by (simp add: handleTradingViewWebhook_def closeAllPositions_def closePosition_def
      calculateProfitLoss_def placeOrder_def insertTrade_def two_positions_env_def accept_env_def
      btc_position_def eth_position_def hold_body_def two_trades_def init_state_def Let_def)

text \<open>
  C7, amended. A request with the recognized topic is never answered with a client
  error and, unless its data is missing or null, is always dispatched: the
  recommendation BUY goes to order placement with whatever symbol the signal has, a
  missing one included, and every other recommendation, missing or unrecognized, goes
  to the close-all flow; the answer is 200 when the dispatched operation succeeds and
  500 when it fails. When the data is missing or null nothing is dispatched and the
  answer is 500.
\<close>

theorem recognized_topic_always_dispatched:
  assumes "topic b = TopicString ''notification.create''"
  shows "handleTradingViewWebhook E b s =
           (case data b of
              DataUndefined \<Rightarrow>
                webhookFailed (TypeError ''Cannot read properties of undefined (reading 'symbol')'') s
            | DataNull \<Rightarrow>
                webhookFailed (TypeError ''Cannot read properties of null (reading 'symbol')'') s
            | DataSignal sig \<Rightarrow>
                if recommendation sig = Some ''BUY'' then
                  (case placeOrder E (symbol sig) ''Buy'' (ORDER_QUANTITY E) s of
                     (Inl e, s1) \<Rightarrow> webhookFailed e s1
                   | (Inr ord, s1) \<Rightarrow> (200, s1))
                else
                  (case closeAllPositions E s of
                     (Inl e, s1) \<Rightarrow> webhookFailed e s1
                   | (Inr u, s1) \<Rightarrow> (200, s1))) \<and>
         fst (handleTradingViewWebhook E b s) \<in> {200, 500}"
  using assms
  by (auto simp add: handleTradingViewWebhook_def webhookFailed_def Let_def
      split: data_value.splits prod.splits sum.splits)

theorem recognized_topic_always_dispatched_witness:
  "topic hold_body = TopicString ''notification.create'' \<and>
   handleTradingViewWebhook two_positions_env hold_body init_state =
     (case closeAllPositions two_positions_env init_state of
        (Inl e, s1) \<Rightarrow> webhookFailed e s1
      | (Inr u, s1) \<Rightarrow> (200, s1)) \<and>
   fst (handleTradingViewWebhook two_positions_env hold_body init_state) \<in> {200, 500}"
proof -
  have t: "topic hold_body = TopicString ''notification.create''"
    by (simp add: hold_body_def)
  have d: "data hold_body = DataSignal \<lparr>symbol = Some ''BTCUSD'', recommendation = Some ''HOLD''\<rparr>"
    by (simp add: hold_body_def)
  from recognized_topic_always_dispatched [OF t, of two_positions_env init_state]
  have "handleTradingViewWebhook two_positions_env hold_body init_state =
          (case closeAllPositions two_positions_env init_state of
             (Inl e, s1) \<Rightarrow> webhookFailed e s1
           | (Inr u, s1) \<Rightarrow> (200, s1)) \<and>
        fst (handleTradingViewWebhook two_positions_env hold_body init_state) \<in> {200, 500}"
    by (simp (no_asm_use) add: d)
  with t show ?thesis by blast
qed

section \<open>Closing a trade in the ledger\<close>

lemma t_status_update_same: "t_status r = v \<Longrightarrow> r\<lparr>t_status := v\<rparr> = r"
  by auto

lemma close_rows_fixed:
  "\<forall>r\<in>set rows. t_id r = i \<longrightarrow> t_status r = ''Closed'' \<Longrightarrow>
   map (\<lambda>r. if t_id r = i then r\<lparr>t_status := ''Closed''\<rparr> else r) rows = rows"
  by (induction rows) (auto simp add: t_status_update_same)

lemma close_rows_nth:
  "k < length rows \<Longrightarrow> t_status (rows ! k) = ''Closed'' \<Longrightarrow>
   map (\<lambda>r. if t_id r = i then r\<lparr>t_status := ''Closed''\<rparr> else r) rows ! k = rows ! k"
  using t_status_update_same [of "rows ! k" "''Closed''"] by simp

lemma close_row_closed:
  "t_id (if t_id r = i then r\<lparr>t_status := ''Closed''\<rparr> else r) = i \<Longrightarrow>
   t_status (if t_id r = i then r\<lparr>t_status := ''Closed''\<rparr> else r) = ''Closed''"
  by (cases "t_id r = i") simp_all

lemma close_rows_closed:
  assumes "r \<in> set (map (\<lambda>r. if t_id r = i then r\<lparr>t_status := ''Closed''\<rparr> else r) rows)"
    and "t_id r = i"
  shows "t_status r = ''Closed''"
proof -
  from assms(1) obtain r0 where "r = (if t_id r0 = i then r0\<lparr>t_status := ''Closed''\<rparr> else r0)"
    by (auto simp only: set_map image_iff)
  with assms(2) close_row_closed [of r0 i] show ?thesis by simp
qed

text \<open>
  C8, as the claim states it, fails: closing trade 5 in an empty table raises nothing
  and logs the success line, and closing trade 1 twice logs the success line twice.
\<close>

theorem updateTradeStatus_silent_counterexample:
  "updateTradeStatus accept_env 5 init_state = init_state\<lparr>out := [StatusUpdatedLog]\<rparr> \<and>
   out (updateTradeStatus accept_env 1 (updateTradeStatus accept_env 1 (one_trade ''Buy'' 1 100))) =
     [StatusUpdatedLog, StatusUpdatedLog]"
  by (simp add: updateTradeStatus_def accept_env_def init_state_def one_trade_def)

text \<open>
  C8, amended. \<open>updateTradeStatus\<close> is monotonic: it keeps the number of rows, and a row
  that is Closed is left as it is, so no row returns to Open. It does not tell a first
  close from a repeat or from a missing trade: whenever the UPDATE itself does not
  fail it logs the same success line and raises nothing, every row with the given id
  is Closed afterwards, and when there is no such row, or each is Closed already, the
  table is unchanged.
\<close>

theorem updateTradeStatus_monotonic_silent:
  "length (trades (updateTradeStatus E i s)) = length (trades s) \<and>
   (\<forall>k < length (trades s).
      t_status (trades s ! k) = ''Closed'' \<longrightarrow> trades (updateTradeStatus E i s) ! k = trades s ! k) \<and>
   (update_error E (trades s) i = None \<longrightarrow>
      out (updateTradeStatus E i s) = out s @ [StatusUpdatedLog] \<and>
      (\<forall>r\<in>set (trades (updateTradeStatus E i s)). t_id r = i \<longrightarrow> t_status r = ''Closed'') \<and>
      ((\<forall>r\<in>set (trades s). t_id r = i \<longrightarrow> t_status r = ''Closed'') \<longrightarrow>
         trades (updateTradeStatus E i s) = trades s))"
proof (cases "update_error E (trades s) i")
  case (Some m)
  then show ?thesis by (simp add: updateTradeStatus_def)
next
  case None
  let ?rows = "map (\<lambda>r. if t_id r = i then r\<lparr>t_status := ''Closed''\<rparr> else r) (trades s)"
  have tr: "trades (updateTradeStatus E i s) = ?rows"
    and ou: "out (updateTradeStatus E i s) = out s @ [StatusUpdatedLog]"
    using None by (simp_all add: updateTradeStatus_def)
  have a: "length ?rows = length (trades s)" by simp
  have b: "\<forall>k < length (trades s). t_status (trades s ! k) = ''Closed'' \<longrightarrow> ?rows ! k = trades s ! k"
    using close_rows_nth [of _ "trades s" i] by blast
  have c: "\<forall>r\<in>set ?rows. t_id r = i \<longrightarrow> t_status r = ''Closed''"
    using close_rows_closed [of _ i "trades s"] by blast
  have d: "(\<forall>r\<in>set (trades s). t_id r = i \<longrightarrow> t_status r = ''Closed'') \<longrightarrow> ?rows = trades s"
    using close_rows_fixed [of "trades s" i] by blast
  from a b c d show ?thesis unfolding tr ou by blast
qed

theorem updateTradeStatus_monotonic_silent_witness:
  "trades (updateTradeStatus accept_env 1 (updateTradeStatus accept_env 1 (one_trade ''Buy'' 1 100))) =
     trades (updateTradeStatus accept_env 1 (one_trade ''Buy'' 1 100)) \<and>
   out (updateTradeStatus accept_env 1 (updateTradeStatus accept_env 1 (one_trade ''Buy'' 1 100))) =
     out (updateTradeStatus accept_env 1 (one_trade ''Buy'' 1 100)) @ [StatusUpdatedLog] \<and>
   trades (updateTradeStatus accept_env 1 (one_trade ''Buy'' 1 100)) =
     [\<lparr>t_id = 1, t_symbol = Some ''BTCUSD'', t_side = ''Buy'', t_qty = 1, t_price = 100, t_status = ''Closed''\<rparr>]"
  using updateTradeStatus_monotonic_silent [of accept_env 1 "updateTradeStatus accept_env 1 (one_trade ''Buy'' 1 100)"]
  by (simp add: updateTradeStatus_def accept_env_def one_trade_def init_state_def)

section \<open>The ledger in every reachable state\<close>

lemma insertTrade_open:
  "\<forall>r\<in>set (trades s). t_status r = ''Open'' \<Longrightarrow>
   \<forall>r\<in>set (trades (insertTrade E smb sd q p s)). t_status r = ''Open''"
  by (auto simp add: insertTrade_def split: option.splits)

lemma placeOrder_open:
  assumes "placeOrder E smb sd q s = (res, s')"
    and "\<forall>r\<in>set (trades s). t_status r = ''Open''"
  shows "\<forall>r\<in>set (trades s'). t_status r = ''Open''"
proof (cases "orderCreate E (calls s) \<lparr>o_symbol = smb, o_side = sd, o_orderType = ''Market'', o_qty = q\<rparr>")
  case (Inl e)
  with assms show ?thesis by (auto simp add: placeOrder_failed)
next
  case (Inr ord)
  let ?t = "s\<lparr>calls := calls s @ [Create \<lparr>o_symbol = smb, o_side = sd, o_orderType = ''Market'', o_qty = q\<rparr>],
               placed := placed s @ [\<lparr>o_symbol = smb, o_side = sd, o_orderType = ''Market'', o_qty = q\<rparr>],
               out := out s @ [OrderPlacedInfo sd q smb]\<rparr>"
  have "\<forall>r\<in>set (trades ?t). t_status r = ''Open''"
    using assms(2) by simp
  from insertTrade_open [OF this, of E smb sd q "c_price ord"]
  have "\<forall>r\<in>set (trades (insertTrade E smb sd q (c_price ord) ?t)). t_status r = ''Open''" .
  moreover have "s' = insertTrade E smb sd q (c_price ord) ?t"
    using assms(1) Inr by (simp add: placeOrder_confirmed)
  ultimately show ?thesis by simp
qed

lemma closePosition_open:
  assumes "closePosition E p s = (res, s')"
    and "\<forall>r\<in>set (trades s). t_status r = ''Open''"
  shows "\<forall>r\<in>set (trades s'). t_status r = ''Open''"
proof -
  consider (buy) "p_side p = ''Buy''" | (sell) "p_side p \<noteq> ''Buy''" "p_side p = ''Sell''"
    | (other) "p_side p \<noteq> ''Buy''" "p_side p \<noteq> ''Sell''"
    by blast
  then show ?thesis
  proof cases
    case buy
    obtain r1 s1 where po: "placeOrder E (Some (p_symbol p)) ''Sell'' (p_size p) s = (r1, s1)"
      by (cases "placeOrder E (Some (p_symbol p)) ''Sell'' (p_size p) s")
    from placeOrder_open [OF po assms(2)] have "\<forall>r\<in>set (trades s1). t_status r = ''Open''" .
    moreover have "s' = s1"
      using assms(1) buy po by (cases r1) (simp_all add: closePosition_def)
    ultimately show ?thesis by simp
  next
    case sell
    obtain r1 s1 where po: "placeOrder E (Some (p_symbol p)) ''Buy'' (p_size p) s = (r1, s1)"
      by (cases "placeOrder E (Some (p_symbol p)) ''Buy'' (p_size p) s")
    from placeOrder_open [OF po assms(2)] have "\<forall>r\<in>set (trades s1). t_status r = ''Open''" .
    moreover have "trades s' = trades s1"
      using assms(1) sell po
      by (cases r1; cases "calculateProfitLoss E (p_id p) (p_entry_price p) s1")
         (auto simp add: closePosition_def)
    ultimately show ?thesis by simp
  next
    case other
    with assms show ?thesis by (simp add: closePosition_def)
  qed
qed

lemma closeLoop_open:
  "closeLoop E ps s = (res, s') \<Longrightarrow> \<forall>r\<in>set (trades s). t_status r = ''Open'' \<Longrightarrow>
   \<forall>r\<in>set (trades s'). t_status r = ''Open''"
proof (induction ps arbitrary: s)
  case Nil
  then show ?case by simp
next
  case (Cons p ps)
  obtain r1 s1 where cp: "closePosition E p s = (r1, s1)"
    by (cases "closePosition E p s")
  from closePosition_open [OF cp Cons.prems(2)]
  have s1: "\<forall>r\<in>set (trades s1). t_status r = ''Open''" .
  show ?case
  proof (cases r1)
    case (Inl e)
    with cp Cons.prems(1) have "s' = s1" by simp
    with s1 show ?thesis by simp
  next
    case (Inr u)
    with cp Cons.prems(1) have "closeLoop E ps s1 = (res, s')" by simp
    from Cons.IH [OF this s1] show ?thesis .
  qed
qed

lemma closeAllPositions_open:
  assumes "closeAllPositions E s = (res, s')"
    and "\<forall>r\<in>set (trades s). t_status r = ''Open''"
  shows "\<forall>r\<in>set (trades s'). t_status r = ''Open''"
proof (cases "positionList E (calls s)")
  case (Inl e)
  with assms show ?thesis by (auto simp add: closeAllPositions_def closeFailed_def)
next
  case (Inr ps)
  obtain r1 s1 where cl: "closeLoop E ps (s\<lparr>calls := calls s @ [ListPositions]\<rparr>) = (r1, s1)"
    by (cases "closeLoop E ps (s\<lparr>calls := calls s @ [ListPositions]\<rparr>)")
  have "\<forall>r\<in>set (trades (s\<lparr>calls := calls s @ [ListPositions]\<rparr>)). t_status r = ''Open''"
    using assms(2) by simp
  from closeLoop_open [OF cl this] have "\<forall>r\<in>set (trades s1). t_status r = ''Open''" .
  moreover have "trades s' = trades s1"
    using assms(1) Inr cl by (cases r1) (auto simp add: closeAllPositions_def closeFailed_def Let_def)
  ultimately show ?thesis by simp
qed

lemma trades_webhookFailed: "webhookFailed e s = (c, s') \<Longrightarrow> trades s' = trades s"
  by (auto simp add: webhookFailed_def)

lemma handle_recognized:
  assumes "topic b = TopicString ''notification.create''"
  shows "handleTradingViewWebhook E b s =
           (case data b of
              DataUndefined \<Rightarrow>
                webhookFailed (TypeError ''Cannot read properties of undefined (reading 'symbol')'') s
            | DataNull \<Rightarrow>
                webhookFailed (TypeError ''Cannot read properties of null (reading 'symbol')'') s
            | DataSignal sig \<Rightarrow>
                if recommendation sig = Some ''BUY'' then
                  (case placeOrder E (symbol sig) ''Buy'' (ORDER_QUANTITY E) s of
                     (Inl e, s1) \<Rightarrow> webhookFailed e s1
                   | (Inr ord, s1) \<Rightarrow> (200, s1))
                else
                  (case closeAllPositions E s of
                     (Inl e, s1) \<Rightarrow> webhookFailed e s1
                   | (Inr u, s1) \<Rightarrow> (200, s1)))"
  using assms
  by (simp add: handleTradingViewWebhook_def Let_def split: data_value.splits)

lemma handle_open:
  assumes "handleTradingViewWebhook E b s = (c, s')"
    and "\<forall>r\<in>set (trades s). t_status r = ''Open''"
  shows "\<forall>r\<in>set (trades s'). t_status r = ''Open''"
proof (cases "topic b = TopicString ''notification.create''")
  case False
  with assms(1) have "trades s' = trades s"
    by (cases "topic_text (topic b)") (auto simp add: handleTradingViewWebhook_def webhookFailed_def)
  with assms(2) show ?thesis by simp
next
  case True
  note h = assms(1) [unfolded handle_recognized [OF True]]
  show ?thesis
  proof (cases "data b")
    case DataUndefined
    with h have "trades s' = trades s" by (simp add: trades_webhookFailed)
    with assms(2) show ?thesis by simp
  next
    case DataNull
    with h have "trades s' = trades s" by (simp add: trades_webhookFailed)
    with assms(2) show ?thesis by simp
  next
    case (DataSignal sig)
    show ?thesis
    proof (cases "recommendation sig = Some ''BUY''")
      case True
      obtain r1 s1 where po: "placeOrder E (symbol sig) ''Buy'' (ORDER_QUANTITY E) s = (r1, s1)"
        by (cases "placeOrder E (symbol sig) ''Buy'' (ORDER_QUANTITY E) s")
      from placeOrder_open [OF po assms(2)] have "\<forall>r\<in>set (trades s1). t_status r = ''Open''" .
      moreover have "trades s' = trades s1"
        using h DataSignal True po by (cases r1) (auto simp add: trades_webhookFailed)
      ultimately show ?thesis by simp
    next
      case False
      obtain r1 s1 where ca: "closeAllPositions E s = (r1, s1)"
        by (cases "closeAllPositions E s")
      from closeAllPositions_open [OF ca assms(2)] have "\<forall>r\<in>set (trades s1). t_status r = ''Open''" .
      moreover have "trades s' = trades s1"
        using h DataSignal False ca by (cases r1) (auto simp add: trades_webhookFailed)
      ultimately show ?thesis by simp
    qed
  qed
qed

text \<open>
  C5. In every state the program can reach from its start through webhook requests,
  whatever the exchange and the database answer, every row of the ledger has status
  Open: rows are inserted as Open, and the handler never runs \<open>updateTradeStatus\<close>.
\<close>

theorem reachable_trades_open:
  assumes "reachable s"
  shows "\<forall>r\<in>set (trades s). t_status r = ''Open''"
  using assms
proof (induction rule: reachable.induct)
  case reachable_init
  show ?case by (simp add: init_state_def)
next
  case (reachable_step s E b c s')
  from handle_open [OF reachable_step.hyps(2) reachable_step.IH]
  show ?case .
qed

theorem reachable_trades_open_witness:
  "reachable (snd (handleTradingViewWebhook accept_env buy_body init_state)) \<and>
   trades (snd (handleTradingViewWebhook accept_env buy_body init_state)) =
     [\<lparr>t_id = 1, t_symbol = Some ''BTCUSD'', t_side = ''Buy'', t_qty = 1, t_price = 100, t_status = ''Open''\<rparr>] \<and>
   map t_status (trades (snd (handleTradingViewWebhook accept_env buy_body init_state))) = [''Open'']"
proof -
  have r: "reachable (snd (handleTradingViewWebhook accept_env buy_body init_state))"
    by (rule reachable_step [OF reachable_init, of accept_env buy_body
          "fst (handleTradingViewWebhook accept_env buy_body init_state)"]) simp
  have t: "trades (snd (handleTradingViewWebhook accept_env buy_body init_state)) =
     [\<lparr>t_id = 1, t_symbol = Some ''BTCUSD'', t_side = ''Buy'', t_qty = 1, t_price = 100, t_status = ''Open''\<rparr>]"
    by (simp add: handleTradingViewWebhook_def placeOrder_def insertTrade_def accept_env_def
        buy_body_def init_state_def Let_def)
  from r t reachable_trades_open [OF r] show ?thesis by simp
qed

section \<open>The close-all flow\<close>

lemma profit_losses_append: "profit_losses (xs @ ys) = profit_losses xs @ profit_losses ys"
  by (induction xs rule: profit_losses.induct) simp_all

lemma find_append_Some: "find P xs = Some x \<Longrightarrow> find P (xs @ ys) = Some x"
  by (induction xs) (auto split: if_splits)

lemma insertTrade_trades: "\<exists>more. trades (insertTrade E smb sd q p s) = trades s @ more"
  by (simp add: insertTrade_def split: option.splits)

lemma insertTrade_profit_losses:
  "profit_losses (out (insertTrade E smb sd q p s)) = profit_losses (out s)"
  by (simp add: insertTrade_def profit_losses_append split: option.splits)

lemma placeOrder_effect:
  assumes "placeOrder E smb sd q s = (res, s1)"
  shows "(\<exists>more. trades s1 = trades s @ more) \<and>
         profit_losses (out s1) = profit_losses (out s) \<and>
         placed s1 = placed s @
           (case res of Inl e \<Rightarrow> []
            | Inr ord \<Rightarrow> [\<lparr>o_symbol = smb, o_side = sd, o_orderType = ''Market'', o_qty = q\<rparr>])"
proof (cases "orderCreate E (calls s) \<lparr>o_symbol = smb, o_side = sd, o_orderType = ''Market'', o_qty = q\<rparr>")
  case (Inl e)
  have "res = Inl e"
    and "s1 = s\<lparr>calls := calls s @ [Create \<lparr>o_symbol = smb, o_side = sd, o_orderType = ''Market'', o_qty = q\<rparr>],
                  out := out s @ [PinoError (''Error placing order: '' @ message e),
                                  Telegram (''Error placing order: '' @ message e)]\<rparr>"
    using assms Inl by (simp_all add: placeOrder_failed)
  then show ?thesis by (simp add: profit_losses_append)
next
  case (Inr ord)
  let ?t = "s\<lparr>calls := calls s @ [Create \<lparr>o_symbol = smb, o_side = sd, o_orderType = ''Market'', o_qty = q\<rparr>],
               placed := placed s @ [\<lparr>o_symbol = smb, o_side = sd, o_orderType = ''Market'', o_qty = q\<rparr>],
               out := out s @ [OrderPlacedInfo sd q smb]\<rparr>"
  have s1: "s1 = insertTrade E smb sd q (c_price ord) ?t" and res: "res = Inr ord"
    using assms Inr by (simp_all add: placeOrder_confirmed)
  have "\<exists>more. trades s1 = trades s @ more"
    using insertTrade_trades [of E smb sd q "c_price ord" ?t] s1 by simp
  moreover have "profit_losses (out s1) = profit_losses (out s)"
    using insertTrade_profit_losses [of E smb sd q "c_price ord" ?t] s1
    by (simp add: profit_losses_append)
  moreover have "placed s1 = placed s @ [\<lparr>o_symbol = smb, o_side = sd, o_orderType = ''Market'', o_qty = q\<rparr>]"
    using s1 by (simp add: placed_insertTrade)
  ultimately show ?thesis using res by simp
qed

lemma closePosition_effect:
  assumes "closePosition E p s = (res, s1)"
  shows "(\<exists>more. trades s1 = trades s @ more) \<and>
         (\<exists>new. profit_losses (out s1) = profit_losses (out s) @ new \<and>
            (new = [] \<or>
             (\<exists>row. p_side p = ''Sell'' \<and>
                find (\<lambda>r. t_id r = p_id p) (trades s1) = Some row \<and>
                new = [(p_id p,
                        if t_side row = ''Buy'' then (p_entry_price p - t_price row) * t_qty row
                        else (t_price row - p_entry_price p) * t_qty row)])))"
proof -
  consider (buy) "p_side p = ''Buy''" | (sell) "p_side p \<noteq> ''Buy''" "p_side p = ''Sell''"
    | (other) "p_side p \<noteq> ''Buy''" "p_side p \<noteq> ''Sell''"
    by blast
  then show ?thesis
  proof cases
    case buy
    obtain r1 t where po: "placeOrder E (Some (p_symbol p)) ''Sell'' (p_size p) s = (r1, t)"
      by (cases "placeOrder E (Some (p_symbol p)) ''Sell'' (p_size p) s")
    have "s1 = t"
      using assms buy po by (cases r1) (simp_all add: closePosition_def)
    with placeOrder_effect [OF po] show ?thesis by simp
  next
    case sell
    obtain r1 t where po: "placeOrder E (Some (p_symbol p)) ''Buy'' (p_size p) s = (r1, t)"
      by (cases "placeOrder E (Some (p_symbol p)) ''Buy'' (p_size p) s")
    note eff = placeOrder_effect [OF po]
    show ?thesis
    proof (cases r1)
      case (Inl e)
      with assms sell po have "s1 = t" by (simp add: closePosition_def)
      with eff show ?thesis by simp
    next
      case (Inr ord)
      show ?thesis
      proof (cases "calculateProfitLoss E (p_id p) (p_entry_price p) t")
        case (Inl e)
        with assms sell po Inr have "s1 = t" by (simp add: closePosition_def)
        with eff show ?thesis by simp
      next
        case pl: (Inr v)
        with assms sell po Inr have s1: "s1 = t\<lparr>out := out t @ [ProfitLossLog (p_id p) v]\<rparr>"
          by (simp add: closePosition_def)
        from pl obtain row where row: "find (\<lambda>r. t_id r = p_id p) (trades t) = Some row"
          and v: "v = (if t_side row = ''Buy'' then (p_entry_price p - t_price row) * t_qty row
                       else (t_price row - p_entry_price p) * t_qty row)"
          by (auto simp add: calculateProfitLoss_def split: option.splits)
        from eff s1 have "\<exists>more. trades s1 = trades s @ more" by simp
        moreover from eff s1 have "profit_losses (out s1) = profit_losses (out s) @ [(p_id p, v)]"
          by (simp add: profit_losses_append)
        moreover from row s1 have "find (\<lambda>r. t_id r = p_id p) (trades s1) = Some row" by simp
        ultimately show ?thesis using sell(2) v by blast
      qed
    qed
  next
    case other
    with assms have "s1 = s" by (simp add: closePosition_def)
    then show ?thesis by simp
  qed
qed

lemma closeLoop_effect:
  "closeLoop E ps s = (res, s') \<Longrightarrow>
   (\<exists>more. trades s' = trades s @ more) \<and>
   (\<exists>new. profit_losses (out s') = profit_losses (out s) @ new \<and>
      (\<forall>e\<in>set new. \<exists>p\<in>set ps. \<exists>row.
         p_side p = ''Sell'' \<and> p_id p = fst e \<and>
         find (\<lambda>r. t_id r = fst e) (trades s') = Some row \<and>
         snd e = (if t_side row = ''Buy'' then (p_entry_price p - t_price row) * t_qty row
                  else (t_price row - p_entry_price p) * t_qty row)))"
proof (induction ps arbitrary: s)
  case Nil
  then show ?case by simp
next
  case (Cons p ps)
  define ok where "ok = (\<lambda>(qs :: position list) (rows :: trade list) (e :: int \<times> real). \<exists>p\<in>set qs. \<exists>row.
         p_side p = ''Sell'' \<and> p_id p = fst e \<and>
         find (\<lambda>r. t_id r = fst e) rows = Some row \<and>
         snd e = (if t_side row = ''Buy'' then (p_entry_price p - t_price row) * t_qty row
                  else (t_price row - p_entry_price p) * t_qty row))"
  have weaken: "ok (p # ps) rows e" if "ok ps rows e" for rows e
    using that unfolding ok_def by auto
  obtain r1 s1 where cp: "closePosition E p s = (r1, s1)"
    by (cases "closePosition E p s")
  from closePosition_effect [OF cp] obtain more1 new1
    where tr1: "trades s1 = trades s @ more1"
      and pl1: "profit_losses (out s1) = profit_losses (out s) @ new1"
      and new1: "new1 = [] \<or>
             (\<exists>row. p_side p = ''Sell'' \<and>
                find (\<lambda>r. t_id r = p_id p) (trades s1) = Some row \<and>
                new1 = [(p_id p,
                        if t_side row = ''Buy'' then (p_entry_price p - t_price row) * t_qty row
                        else (t_price row - p_entry_price p) * t_qty row)])"
    by blast
  have first: "\<forall>e\<in>set new1. ok (p # ps) (trades s1 @ more) e" for more
  proof (cases "new1 = []")
    case True
    then show ?thesis by simp
  next
    case False
    with new1 obtain row where "p_side p = ''Sell''"
      and "find (\<lambda>r. t_id r = p_id p) (trades s1) = Some row"
      and "new1 = [(p_id p,
                    if t_side row = ''Buy'' then (p_entry_price p - t_price row) * t_qty row
                    else (t_price row - p_entry_price p) * t_qty row)]"
      by blast
    then show ?thesis
      unfolding ok_def by (simp add: find_append_Some)
  qed
  show ?case
  proof (cases r1)
    case (Inl e)
    with cp Cons.prems have "s' = s1" by simp
    with tr1 pl1 first [of "[]"] show ?thesis
      unfolding ok_def by auto
  next
    case (Inr u)
    with cp Cons.prems have "closeLoop E ps s1 = (res, s')" by simp
    from Cons.IH [OF this] obtain more2 new2
      where tr2: "trades s' = trades s1 @ more2"
        and pl2: "profit_losses (out s') = profit_losses (out s1) @ new2"
        and new2: "\<forall>e\<in>set new2. ok ps (trades s') e"
      unfolding ok_def by blast
    have a: "trades s' = trades s @ (more1 @ more2)"
      using tr1 tr2 by simp
    have b: "profit_losses (out s') = profit_losses (out s) @ (new1 @ new2)"
      using pl1 pl2 by simp
    have c: "\<forall>e\<in>set (new1 @ new2). ok (p # ps) (trades s') e"
      using first [of more2] new2 tr2 weaken by auto
    from a b c show ?thesis
      unfolding ok_def by blast
  qed
qed

lemma closeAllPositions_listed:
  assumes "positionList E (calls s) = Inr ps"
  shows "closeAllPositions E s =
           (case closeLoop E ps (s\<lparr>calls := calls s @ [ListPositions]\<rparr>) of
              (Inl e, s1) \<Rightarrow> closeFailed e s1
            | (Inr u, s1) \<Rightarrow>
                (Inr (), s1\<lparr>out := out s1 @ [PinoInfo ''All open positions closed.'']\<rparr>))"
  using assms by (simp add: closeAllPositions_def Let_def)

text \<open>
  C3. The claim asks for one profit/loss value per closed position, two in the
  scenario with BTCUSD/Buy/1 and ETHUSD/Sell/2. Run on that scenario, with a ledger
  that holds both trades, an exchange that confirms every order and a database that
  never fails, the handler answers 200 and places the two close orders, Sell BTCUSD 1
  and Buy ETHUSD 2, but it computes one profit/loss value only, for trade 2: the
  branch for a position of side Buy (line 118) places the close order and never calls
  \<open>calculateProfitLoss\<close>, which the branch for side Sell does (line 123).
\<close>

theorem close_all_no_profit_loss_for_buy_position:
  "fst (handleTradingViewWebhook two_positions_env sell_body two_trades) = 200 \<and>
   placed (snd (handleTradingViewWebhook two_positions_env sell_body two_trades)) =
     [\<lparr>o_symbol = Some ''BTCUSD'', o_side = ''Sell'', o_orderType = ''Market'', o_qty = 1\<rparr>,
      \<lparr>o_symbol = Some ''ETHUSD'', o_side = ''Buy'', o_orderType = ''Market'', o_qty = 2\<rparr>] \<and>
   profit_losses (out (snd (handleTradingViewWebhook two_positions_env sell_body two_trades))) =
     [(2, 0)]"
  by (simp add: handleTradingViewWebhook_def closeAllPositions_def closePosition_def
      calculateProfitLoss_def placeOrder_def insertTrade_def two_positions_env_def accept_env_def
      btc_position_def eth_position_def sell_body_def two_trades_def init_state_def Let_def)

text \<open>
  C6. Every profit/loss value the close-all flow computes belongs to a position the
  exchange reported with side Sell, and is the ledger row's formula evaluated with
  that position's own entry price as the exit price (not the price at which the close
  order was filled); so when the row stores a price equal to that entry price the
  value is 0. In the witness the exchange fills the close order at 100 while the
  position's entry price is 50: a Buy row of quantity 2 priced 50 gives 0, and one
  priced 40 gives 20, where the fill price would have given 120.
\<close>

theorem close_all_profit_loss_only_short:
  assumes "positionList E (calls s) = Inr ps"
    and "closeAllPositions E s = (res, s')"
  shows "\<exists>new. profit_losses (out s') = profit_losses (out s) @ new \<and>
           (\<forall>e\<in>set new. \<exists>p\<in>set ps. \<exists>row.
              p_side p = ''Sell'' \<and> p_id p = fst e \<and>
              find (\<lambda>r. t_id r = fst e) (trades s') = Some row \<and>
              snd e = (if t_side row = ''Buy'' then (p_entry_price p - t_price row) * t_qty row
                       else (t_price row - p_entry_price p) * t_qty row) \<and>
              (t_price row = p_entry_price p \<longrightarrow> snd e = 0))"
proof -
  let ?s0 = "s\<lparr>calls := calls s @ [ListPositions]\<rparr>"
  obtain r1 s1 where cl: "closeLoop E ps ?s0 = (r1, s1)"
    by (cases "closeLoop E ps ?s0")
  have tr: "trades s' = trades s1" and pl: "profit_losses (out s') = profit_losses (out s1)"
    using assms(2) cl unfolding closeAllPositions_listed [OF assms(1)]
    by (cases r1; auto simp add: closeFailed_def profit_losses_append)+
  from closeLoop_effect [OF cl] obtain new
    where n1: "profit_losses (out s1) = profit_losses (out ?s0) @ new"
      and n2: "\<forall>e\<in>set new. \<exists>p\<in>set ps. \<exists>row.
              p_side p = ''Sell'' \<and> p_id p = fst e \<and>
              find (\<lambda>r. t_id r = fst e) (trades s1) = Some row \<and>
              snd e = (if t_side row = ''Buy'' then (p_entry_price p - t_price row) * t_qty row
                       else (t_price row - p_entry_price p) * t_qty row)"
    by blast
  have zero: "(if t_side row = ''Buy'' then (x - t_price row) * t_qty row
               else (t_price row - x) * t_qty row) = 0" if "t_price row = x" for row :: trade and x
    using that by simp
  have "profit_losses (out s') = profit_losses (out s) @ new"
    using n1 pl by simp
  moreover have "\<forall>e\<in>set new. \<exists>p\<in>set ps. \<exists>row.
              p_side p = ''Sell'' \<and> p_id p = fst e \<and>
              find (\<lambda>r. t_id r = fst e) (trades s') = Some row \<and>
              snd e = (if t_side row = ''Buy'' then (p_entry_price p - t_price row) * t_qty row
                       else (t_price row - p_entry_price p) * t_qty row) \<and>
              (t_price row = p_entry_price p \<longrightarrow> snd e = 0)"
  proof
    fix e assume "e \<in> set new"
    with n2 obtain p row where "p \<in> set ps" "p_side p = ''Sell''" "p_id p = fst e"
      "find (\<lambda>r. t_id r = fst e) (trades s1) = Some row"
      "snd e = (if t_side row = ''Buy'' then (p_entry_price p - t_price row) * t_qty row
                else (t_price row - p_entry_price p) * t_qty row)"
      by blast
    moreover from this(5) zero [of row "p_entry_price p"]
    have "t_price row = p_entry_price p \<longrightarrow> snd e = 0" by simp
    ultimately show "\<exists>p\<in>set ps. \<exists>row.
              p_side p = ''Sell'' \<and> p_id p = fst e \<and>
              find (\<lambda>r. t_id r = fst e) (trades s') = Some row \<and>
              snd e = (if t_side row = ''Buy'' then (p_entry_price p - t_price row) * t_qty row
                       else (t_price row - p_entry_price p) * t_qty row) \<and>
              (t_price row = p_entry_price p \<longrightarrow> snd e = 0)"
      unfolding tr by blast
  qed
  ultimately show ?thesis by blast
qed

theorem close_all_profit_loss_only_short_witness:
  "positionList short_position_env (calls (one_trade ''Buy'' 2 50)) = Inr [short_position] \<and>
   profit_losses (out (snd (closeAllPositions short_position_env (one_trade ''Buy'' 2 50)))) = [(1, 0)] \<and>
   profit_losses (out (snd (closeAllPositions short_position_env (one_trade ''Buy'' 2 40)))) = [(1, 20)]"
proof -
  have a: "positionList short_position_env (calls (one_trade ''Buy'' 2 50)) = Inr [short_position]"
    by (simp add: short_position_env_def accept_env_def)
  have b: "closeAllPositions short_position_env (one_trade ''Buy'' 2 50) =
             (fst (closeAllPositions short_position_env (one_trade ''Buy'' 2 50)),
              snd (closeAllPositions short_position_env (one_trade ''Buy'' 2 50)))"
    by simp
  have c: "profit_losses (out (snd (closeAllPositions short_position_env (one_trade ''Buy'' 2 50)))) = [(1, 0)]"
    by (simp add: closeAllPositions_def closePosition_def calculateProfitLoss_def placeOrder_def
        insertTrade_def short_position_env_def short_position_def accept_env_def one_trade_def
        init_state_def Let_def)
  have d: "profit_losses (out (snd (closeAllPositions short_position_env (one_trade ''Buy'' 2 40)))) = [(1, 20)]"
    by (simp add: closeAllPositions_def closePosition_def calculateProfitLoss_def placeOrder_def
        insertTrade_def short_position_env_def short_position_def accept_env_def one_trade_def
        init_state_def Let_def)
  from close_all_profit_loss_only_short [OF a b] a c d show ?thesis by simp
qed

end
